theory Spec2Isabelle
  imports Main "HOL-Library.AList"
begin

section \<open>JavaScript values used by the front end\<close>

text \<open>
  Strings are HOL strings; a character stands for one code unit in the Latin-1 range.
  \<open>trim\<close> is \<open>String.prototype.trim\<close>, \<open>toLowerCase\<close> is
  \<open>String.prototype.toLowerCase\<close> and \<open>includes_str\<close> is
  \<open>String.prototype.includes\<close> on that range.  A value that may be \<open>null\<close> or
  \<open>undefined\<close> is an option; \<open>truthy\<close> is the truth value JavaScript gives it in a
  condition (the empty string is false).
\<close>

definition isWhiteSpace :: "char \<Rightarrow> bool" where
  "isWhiteSpace c = (of_char c \<in> {9, 10, 11, 12, 13, 32, 160 :: nat})"

definition trim :: "string \<Rightarrow> string" where
  "trim s = rev (dropWhile isWhiteSpace (rev (dropWhile isWhiteSpace s)))"

definition toLowerCase_char :: "char \<Rightarrow> char" where
  "toLowerCase_char c =
     (let n = (of_char c :: nat)
      in if (65 \<le> n \<and> n \<le> 90) \<or> (192 \<le> n \<and> n \<le> 222 \<and> n \<noteq> 215)
         then char_of (n + 32) else c)"

definition toLowerCase :: "string \<Rightarrow> string" where
  "toLowerCase s = map toLowerCase_char s"

fun startsWith :: "string \<Rightarrow> string \<Rightarrow> bool" where
  "startsWith s [] = True"
| "startsWith [] (n # ns) = False"
| "startsWith (c # cs) (n # ns) = (c = n \<and> startsWith cs ns)"

fun includes_str :: "string \<Rightarrow> string \<Rightarrow> bool" where
  "includes_str [] needle = (needle = [])"
| "includes_str (c # cs) needle = (startsWith (c # cs) needle \<or> includes_str cs needle)"

fun truthy :: "string option \<Rightarrow> bool" where
  "truthy None = False"
| "truthy (Some s) = (s \<noteq> [])"

text \<open>\<open>name.split('.').pop()\<close>: the text after the last dot, the whole name without one.\<close>

definition split_pop :: "string \<Rightarrow> string" where
  "split_pop name = rev (takeWhile (\<lambda>c. c \<noteq> CHR ''.'') (rev name))"

section \<open>Data model\<close>

record message =
  m_role :: string
  m_content :: string
  m_timestamp :: string
  m_dashboard_url :: "string option"
  m_download_link :: "string option"
  m_error :: bool
  m_completed :: bool

record uploaded_file =
  f_name :: string
  f_path :: string
  f_type :: string
  f_uploadTime :: string

record conversation =
  c_id :: string
  c_title :: string
  c_message_count :: int
  c_updated_at :: string

text \<open>
  An entry of \<open>activeJobs\<close>: either the object \<open>sendMessage\<close> inserts or the body of a
  \<open>GET /job-status\<close> response.
\<close>

record job =
  j_conversation_id :: "string option"
  j_status :: string
  j_progress :: "int option"
  j_response :: "string option"
  j_dashboard_url :: "string option"
  j_download_link :: "string option"
  j_error :: "string option"

text \<open>
  \<open>activeJobs\<close> is an object used as a dictionary.  Its keys keep insertion order, which
  \<open>Object.keys\<close> follows, so it is an association list: the spread
  \<open>{...prev, [k]: v}\<close> is \<open>AList.update\<close> and \<open>delete\<close> is \<open>AList.delete\<close>.
\<close>

type_synonym jobs = "(string \<times> job) list"

record chat_response =
  r_response :: string
  r_conversation_id :: "string option"
  r_dashboard_url :: "string option"
  r_download_link :: "string option"

record upload_response =
  u_file_names :: "string list option"
  u_conversation_id :: "string option"

record dashboard_response =
  d_job_id :: "string option"

text \<open>A rejected axios promise: \<open>error.response?.status\<close> and \<open>error.response?.data?.detail\<close>.\<close>

datatype http_error = HttpError (e_status: "nat option") (e_detail: "string option")

datatype request =
    GetConversations
  | GetConversation string
  | GetConversationFiles string
  | DeleteConversation string
  | PostChat string "string option"
  | PostUpload "string list" "string option"
  | PostCreateDashboard string "string option" "string list"
  | GetJobStatus string

record app_state =
  conversations :: "conversation list"
  currentConversationId :: "string option"
  messages :: "message list"
  inputMessage :: string
  isLoading :: bool
  uploadedFiles :: "uploaded_file list"
  isDragging :: bool
  activeJobs :: jobs
  sidebarOpen :: bool
  loadingConversation :: bool

definition initial_state :: app_state where
  "initial_state =
     \<lparr>conversations = [], currentConversationId = None, messages = [], inputMessage = [],
      isLoading = False, uploadedFiles = [], isDragging = False, activeJobs = [],
      sidebarOpen = True, loadingConversation = False\<rparr>"

section \<open>Session state store (frontend/src/App.js)\<close>

definition appendMessage :: "message \<Rightarrow> app_state \<Rightarrow> app_state" where
  "appendMessage msg s = s\<lparr>messages := messages s @ [msg]\<rparr>"

definition insertJob :: "string \<Rightarrow> string option \<Rightarrow> jobs \<Rightarrow> jobs" where
  "insertJob job_id conv prev =
     AList.update job_id
       \<lparr>j_conversation_id = conv, j_status = ''processing'', j_progress = Some 0,
        j_response = None, j_dashboard_url = None, j_download_link = None, j_error = None\<rparr>
       prev"

definition mergeJobStatus :: "string \<Rightarrow> job \<Rightarrow> jobs \<Rightarrow> jobs" where
  "mergeJobStatus jobId jobStatus prev = AList.update jobId jobStatus prev"

definition retireJob :: "string \<Rightarrow> jobs \<Rightarrow> jobs" where
  "retireJob jobId prev = AList.delete jobId prev"

definition startNewConversation :: "app_state \<Rightarrow> app_state" where
  "startNewConversation s =
     s\<lparr>messages := [], uploadedFiles := [], currentConversationId := Some [], activeJobs := []\<rparr>"

section \<open>Conversation gateway (frontend/src/App.js)\<close>

text \<open>
  Every asynchronous handler takes the outcome of its requests as an argument
  (\<open>Inl\<close> a rejected promise, \<open>Inr\<close> the response body) and returns the new state with
  the requests it issued, in order.  Calls of \<open>new Date().toISOString()\<close> are arguments too.
\<close>

definition loadConversations ::
  "http_error + conversation list option \<Rightarrow> app_state \<Rightarrow> app_state \<times> request list" where
  "loadConversations res s =
     (case res of
        Inr convs \<Rightarrow> (s\<lparr>conversations := (case convs of Some cs \<Rightarrow> cs | None \<Rightarrow> [])\<rparr>,
                      [GetConversations])
      | Inl e \<Rightarrow> (s\<lparr>conversations := []\<rparr>, [GetConversations]))"

text \<open>
  \<open>loadConversation\<close> in its three synchronous stretches: up to the first \<open>await\<close>, from
  the message response to the second \<open>await\<close>, and from the file response to the end.
\<close>

definition loadConversation_start :: "string \<Rightarrow> app_state \<Rightarrow> app_state \<times> request list" where
  "loadConversation_start conversationId s =
     (if loadingConversation s then (s, [])
      else (s\<lparr>loadingConversation := True\<rparr>, [GetConversation conversationId]))"

definition loadConversation_files ::
  "http_error + uploaded_file list option \<Rightarrow> app_state \<Rightarrow> app_state" where
  "loadConversation_files filesResponse s =
     (case filesResponse of
        Inr (Some files) \<Rightarrow> s\<lparr>uploadedFiles := files, loadingConversation := False\<rparr>
      | Inr None \<Rightarrow> s\<lparr>loadingConversation := False\<rparr>
      | Inl filesError \<Rightarrow> s\<lparr>uploadedFiles := [], loadingConversation := False\<rparr>)"

definition loadConversation_messages ::
  "string \<Rightarrow> http_error + message list option \<Rightarrow> http_error + uploaded_file list option \<Rightarrow>
   app_state \<Rightarrow> app_state \<times> request list" where
  "loadConversation_messages conversationId response filesResponse s =
     (case response of
        Inr (Some msgs) \<Rightarrow>
          (loadConversation_files filesResponse
             (s\<lparr>messages := msgs, currentConversationId := Some conversationId\<rparr>),
           [GetConversationFiles conversationId])
      | Inr None \<Rightarrow> (s\<lparr>loadingConversation := False\<rparr>, [])
      | Inl e \<Rightarrow> (s\<lparr>messages := [], uploadedFiles := [], loadingConversation := False\<rparr>, []))"

definition loadConversation ::
  "string \<Rightarrow> http_error + message list option \<Rightarrow> http_error + uploaded_file list option \<Rightarrow>
   app_state \<Rightarrow> app_state \<times> request list" where
  "loadConversation conversationId response filesResponse s =
     (if loadingConversation s then (s, [])
      else
        let (s1, q1) = loadConversation_start conversationId s;
            (s2, q2) = loadConversation_messages conversationId response filesResponse s1
        in (s2, q1 @ q2))"

definition deleteConversation ::
  "string \<Rightarrow> http_error + unit \<Rightarrow> app_state \<Rightarrow> app_state \<times> request list" where
  "deleteConversation conversationId res s =
     (case res of
        Inr u \<Rightarrow>
          (let s1 = s\<lparr>conversations := filter (\<lambda>conv. c_id conv \<noteq> conversationId) (conversations s)\<rparr>
           in if currentConversationId s = Some conversationId then startNewConversation s1 else s1,
           [DeleteConversation conversationId])
      | Inl e \<Rightarrow> (s, [DeleteConversation conversationId]))"

record send_io =
  io_now_user :: string
  io_chat :: "http_error + chat_response"
  io_now_reply :: string
  io_dashboard :: "http_error + dashboard_response"
  io_now_error :: string
  io_conversations :: "http_error + conversation list option"

definition dashboard_intent :: "string \<Rightarrow> bool" where
  "dashboard_intent userMessage =
     (includes_str (toLowerCase userMessage) ''dashboard'' \<or>
      includes_str (toLowerCase userMessage) ''chart'' \<or>
      includes_str (toLowerCase userMessage) ''visualization'')"

definition user_message :: "string \<Rightarrow> string \<Rightarrow> message" where
  "user_message userMessage now =
     \<lparr>m_role = ''user'', m_content = userMessage, m_timestamp = now, m_dashboard_url = None,
      m_download_link = None, m_error = False, m_completed = False\<rparr>"

definition assistant_message :: "chat_response \<Rightarrow> string \<Rightarrow> message" where
  "assistant_message response now =
     \<lparr>m_role = ''assistant'', m_content = r_response response, m_timestamp = now,
      m_dashboard_url = r_dashboard_url response, m_download_link = r_download_link response,
      m_error = False, m_completed = False\<rparr>"

definition error_message :: "string \<Rightarrow> string \<Rightarrow> message" where
  "error_message text now =
     \<lparr>m_role = ''assistant'', m_content = text, m_timestamp = now, m_dashboard_url = None,
      m_download_link = None, m_error = True, m_completed = False\<rparr>"

text \<open>
  The \<open>try\<close> block of \<open>sendMessage\<close>: the state reached, the exception thrown if any, and
  the requests issued.  \<open>loadConversations()\<close> is not awaited and catches its own failure,
  so it throws nothing here.
\<close>

definition sendMessage_try ::
  "send_io \<Rightarrow> string \<Rightarrow> app_state \<Rightarrow> app_state \<times> http_error option \<times> request list" where
  "sendMessage_try io userMessage s =
     (let chatReq = PostChat (if userMessage \<noteq> [] then userMessage
                              else ''I have uploaded files for dashboard creation'')
                             (currentConversationId s)
      in case io_chat io of
           Inl e \<Rightarrow> (s, Some e, [chatReq])
         | Inr response \<Rightarrow>
             let s1 = (appendMessage (assistant_message response (io_now_reply io)) s)
                        \<lparr>currentConversationId := r_conversation_id response\<rparr>
             in if uploadedFiles s \<noteq> [] \<and> dashboard_intent userMessage
                then
                  let dashReq = PostCreateDashboard userMessage (r_conversation_id response)
                                  (map f_path (uploadedFiles s))
                  in case io_dashboard io of
                       Inl e \<Rightarrow> (s1, Some e, [chatReq, dashReq])
                     | Inr dashboardResponse \<Rightarrow>
                         let s2 = (case d_job_id dashboardResponse of
                                     Some job_id \<Rightarrow>
                                       if job_id \<noteq> []
                                       then s1\<lparr>activeJobs := insertJob job_id
                                                 (r_conversation_id response) (activeJobs s1)\<rparr>
                                       else s1
                                   | None \<Rightarrow> s1)
                         in (fst (loadConversations (io_conversations io) s2), None,
                             [chatReq, dashReq, GetConversations])
                else (fst (loadConversations (io_conversations io) s1), None,
                      [chatReq, GetConversations]))"

definition sendMessage :: "send_io \<Rightarrow> app_state \<Rightarrow> app_state \<times> request list" where
  "sendMessage io s =
     (if trim (inputMessage s) = [] \<and> uploadedFiles s = [] then (s, [])
      else
        let userMessage = trim (inputMessage s);
            s1 = s\<lparr>inputMessage := [], isLoading := True\<rparr>;
            s2 = (if userMessage \<noteq> []
                  then appendMessage (user_message userMessage (io_now_user io)) s1 else s1);
            (s3, thrown, reqs) = sendMessage_try io userMessage s2;
            s4 = (case thrown of
                    None \<Rightarrow> s3
                  | Some e \<Rightarrow>
                      appendMessage
                        (error_message
                           ''Sorry, I encountered an error processing your request. Please try again.''
                           (io_now_error io)) s3)
        in (s4\<lparr>isLoading := False\<rparr>, reqs))"

section \<open>Upload gateway (frontend/src/App.js)\<close>

definition upload_error_text :: "http_error \<Rightarrow> string" where
  "upload_error_text e =
     (if truthy (e_detail e) then ''Upload failed: '' @ (case e_detail e of Some d \<Rightarrow> d | None \<Rightarrow> [])
      else if e_status e = Some 413
           then ''File too large. Please upload files smaller than 100MB.''
      else if e_status e = Some 400
           then ''Invalid file format. Please upload CSV, Excel, JSON, TXT, or image files.''
      else ''Error uploading files. Please try again.'')"

definition new_file :: "string \<Rightarrow> string \<Rightarrow> uploaded_file" where
  "new_file now name =
     \<lparr>f_name = name, f_path = name, f_type = toLowerCase (split_pop name), f_uploadTime = now\<rparr>"

text \<open>
  A response without \<open>file_names\<close> makes \<open>.map\<close> throw a TypeError inside the
  \<open>try\<close>; the \<open>catch\<close> sees an error without \<open>response\<close>.
\<close>

definition handleFileUpload ::
  "string list \<Rightarrow> http_error + upload_response \<Rightarrow> string \<Rightarrow> app_state \<Rightarrow>
   app_state \<times> request list" where
  "handleFileUpload files res now s =
     (let req = PostUpload files
                  (if truthy (currentConversationId s) then currentConversationId s else None)
      in case res of
           Inr response \<Rightarrow>
             (case u_file_names response of
                Some file_names \<Rightarrow>
                  (s\<lparr>uploadedFiles := uploadedFiles s @ map (new_file now) file_names,
                     currentConversationId := u_conversation_id response\<rparr>, [req])
              | None \<Rightarrow>
                  (appendMessage (error_message (upload_error_text (HttpError None None)) now) s,
                   [req]))
         | Inl e \<Rightarrow> (appendMessage (error_message (upload_error_text e) now) s, [req]))"

definition removeStagedFile :: "nat \<Rightarrow> app_state \<Rightarrow> app_state" where
  "removeStagedFile index s =
     s\<lparr>uploadedFiles := map snd (filter (\<lambda>(i, f). i \<noteq> index)
                                    (zip [0 ..< length (uploadedFiles s)] (uploadedFiles s)))\<rparr>"

section \<open>Job poller (frontend/src/App.js)\<close>

text \<open>\<open>String(x)\<close> as a template literal computes it: \<open>undefined\<close> prints as its name.\<close>

fun string_of :: "string option \<Rightarrow> string" where
  "string_of None = ''undefined''"
| "string_of (Some s) = s"

definition result_message :: "job \<Rightarrow> string \<Rightarrow> message" where
  "result_message jobStatus now =
     \<lparr>m_role = ''assistant'', m_content = string_of (j_response jobStatus), m_timestamp = now,
      m_dashboard_url = j_dashboard_url jobStatus, m_download_link = j_download_link jobStatus,
      m_error = False, m_completed = True\<rparr>"

definition hasCompletionMessage :: "job \<Rightarrow> message list \<Rightarrow> bool" where
  "hasCompletionMessage jobStatus prev =
     list_ex (\<lambda>msg. m_completed msg \<and> m_content msg = string_of (j_response jobStatus)) prev"

definition job_error_message :: "job \<Rightarrow> string \<Rightarrow> message" where
  "job_error_message jobStatus now =
     error_message
       (if truthy (j_response jobStatus) then string_of (j_response jobStatus)
        else ''Error: '' @ string_of (j_error jobStatus)) now"

text \<open>
  The body of the loop of \<open>checkJobStatuses\<close> for one job id, from the arrival of the
  response on: a rejected fetch is logged and changes nothing.
\<close>

definition checkJobStatuses_body ::
  "string \<Rightarrow> http_error + job \<Rightarrow> string \<Rightarrow> app_state \<Rightarrow> app_state" where
  "checkJobStatuses_body jobId res now s =
     (case res of
        Inl e \<Rightarrow> s
      | Inr jobStatus \<Rightarrow>
          let s1 = s\<lparr>activeJobs := mergeJobStatus jobId jobStatus (activeJobs s)\<rparr>;
              s2 = (if j_status jobStatus = ''completed'' \<and> truthy (j_response jobStatus)
                    then (if \<not> hasCompletionMessage jobStatus (messages s1)
                          then appendMessage (result_message jobStatus now) s1 else s1)
                           \<lparr>activeJobs := retireJob jobId (activeJobs s1)\<rparr>
                    else s1)
          in if j_status jobStatus = ''error''
             then (appendMessage (job_error_message jobStatus now) s2)
                    \<lparr>activeJobs := retireJob jobId (activeJobs s2)\<rparr>
             else s2)"

definition checkJobStatuses ::
  "(string \<Rightarrow> http_error + job) \<Rightarrow> (string \<Rightarrow> string) \<Rightarrow> app_state \<Rightarrow>
   app_state \<times> request list" where
  "checkJobStatuses fetch now s =
     (fold (\<lambda>jobId t. checkJobStatuses_body jobId (fetch jobId) (now jobId) t)
           (map fst (activeJobs s)) s,
      map GetJobStatus (map fst (activeJobs s)))"

text \<open>
  Poll responses arriving in any order, from any number of ticks: each is one application
  of the loop body to the state of that moment.
\<close>

fun poll_run :: "(string \<times> (http_error + job) \<times> string) list \<Rightarrow> app_state \<Rightarrow> app_state" where
  "poll_run [] s = s"
| "poll_run ((jobId, res, now) # evs) s = poll_run evs (checkJobStatuses_body jobId res now s)"

subsection \<open>The poll timer\<close>

text \<open>
  The window's interval timers and the \<open>pollInterval\<close> ref.  \<open>setInterval\<close> returns a
  fresh id; \<open>clearInterval\<close> removes the timer with that id, if there is one.
\<close>

record timer_env =
  pollInterval :: "nat option"
  timers :: "nat list"
  next_timer :: nat

definition initial_timers :: timer_env where
  "initial_timers = \<lparr>pollInterval = None, timers = [], next_timer = 1\<rparr>"

definition setInterval :: "timer_env \<Rightarrow> nat \<times> timer_env" where
  "setInterval t = (next_timer t, t\<lparr>timers := timers t @ [next_timer t], next_timer := Suc (next_timer t)\<rparr>)"

definition clearInterval :: "nat \<Rightarrow> timer_env \<Rightarrow> timer_env" where
  "clearInterval i t = t\<lparr>timers := removeAll i (timers t)\<rparr>"

definition pollEffect :: "jobs \<Rightarrow> timer_env \<Rightarrow> timer_env" where
  "pollEffect jobs t =
     (if length (map fst jobs) > 0
      then (let (i, t1) = setInterval t in t1\<lparr>pollInterval := Some i\<rparr>)
      else case pollInterval t of
             Some i \<Rightarrow> if i \<noteq> 0 then (clearInterval i t)\<lparr>pollInterval := None\<rparr> else t
           | None \<Rightarrow> t)"

definition pollCleanup :: "timer_env \<Rightarrow> timer_env" where
  "pollCleanup t =
     (case pollInterval t of
        Some i \<Rightarrow> if i \<noteq> 0 then clearInterval i t else t
      | None \<Rightarrow> t)"

text \<open>
  React runs an effect again when a dependency changed: first the cleanup the previous
  run returned, then the effect with the new \<open>activeJobs\<close>.
\<close>

definition rerun_effect :: "jobs \<Rightarrow> timer_env \<Rightarrow> timer_env" where
  "rerun_effect jobs t = pollEffect jobs (pollCleanup t)"

text \<open>The four writes to \<open>activeJobs\<close> in the source.\<close>

datatype jobs_update =
    InsertJob string "string option"
  | MergeStatus string job
  | RetireJob string
  | ClearJobs

fun apply_update :: "jobs_update \<Rightarrow> jobs \<Rightarrow> jobs" where
  "apply_update (InsertJob job_id conv) prev = insertJob job_id conv prev"
| "apply_update (MergeStatus jobId jobStatus) prev = mergeJobStatus jobId jobStatus prev"
| "apply_update (RetireJob jobId) prev = retireJob jobId prev"
| "apply_update ClearJobs prev = []"

text \<open>
  A render commits a batch of queued updates of \<open>activeJobs\<close> and then runs the effect
  again.  The states of the job map and the timers after the mount and any number of
  renders:
\<close>

inductive reachable :: "jobs \<times> timer_env \<Rightarrow> bool" where
  mount: "reachable ([], pollEffect [] initial_timers)"
| render: "reachable (jobs, t) \<Longrightarrow>
           reachable (fold apply_update us jobs, rerun_effect (fold apply_update us jobs) t)"

section \<open>The second front end (unnamed/part_000)\<close>

text \<open>
  The repository holds a second \<open>App\<close> component with its own state and its own
  \<open>loadConversations\<close>, \<open>sendMessage\<close> and \<open>handleFileUpload\<close>; it has no job map.
  Its definitions carry the suffix \<open>_premium\<close>, after the title the component shows.
  Its conversation id is always a string, empty when none is active.
\<close>

record premium_file =
  pf_filename :: string
  pf_uploadTime :: string

record premium_state =
  p_messages :: "message list"
  p_inputMessage :: string
  p_isLoading :: bool
  p_conversations :: "conversation list"
  p_currentConversationId :: string
  p_uploadedFiles :: "premium_file list"
  p_loadingConversation :: bool
  p_currentTheme :: string
  p_showThemeModal :: bool

definition loadConversations_premium ::
  "http_error + conversation list option \<Rightarrow> premium_state \<Rightarrow> premium_state \<times> request list" where
  "loadConversations_premium res s =
     (case res of
        Inr convs \<Rightarrow> (s\<lparr>p_conversations := (case convs of Some cs \<Rightarrow> cs | None \<Rightarrow> [])\<rparr>,
                      [GetConversations])
      | Inl e \<Rightarrow> (s, [GetConversations]))"

record premium_io =
  pio_now_user :: string
  pio_chat :: "http_error + chat_response"
  pio_now_reply :: string
  pio_conversations :: "http_error + conversation list option"

definition plain_message :: "string \<Rightarrow> string \<Rightarrow> string \<Rightarrow> message" where
  "plain_message role text now =
     \<lparr>m_role = role, m_content = text, m_timestamp = now, m_dashboard_url = None,
      m_download_link = None, m_error = False, m_completed = False\<rparr>"

definition adopt_premium ::
  "string option \<Rightarrow> http_error + conversation list option \<Rightarrow> string \<Rightarrow> premium_state \<Rightarrow>
   premium_state \<times> request list" where
  "adopt_premium conversation_id convs current s =
     (if current = [] \<and> truthy conversation_id
      then loadConversations_premium convs (s\<lparr>p_currentConversationId := string_of conversation_id\<rparr>)
      else (s, []))"

definition sendMessage_premium :: "premium_io \<Rightarrow> premium_state \<Rightarrow> premium_state \<times> request list" where
  "sendMessage_premium io s =
     (if trim (p_inputMessage s) = [] \<or> p_isLoading s then (s, [])
      else
        let userMessage = plain_message ''user'' (p_inputMessage s) (pio_now_user io);
            s1 = s\<lparr>p_messages := p_messages s @ [userMessage], p_inputMessage := [],
                   p_isLoading := True\<rparr>;
            chatReq = PostChat (p_inputMessage s) (Some (p_currentConversationId s))
        in case pio_chat io of
             Inr response \<Rightarrow>
               let assistantMessage =
                     plain_message ''assistant'' (r_response response) (pio_now_reply io);
                   s2 = s1\<lparr>p_messages := p_messages s1 @ [assistantMessage]\<rparr>;
                   (s3, q) = adopt_premium (r_conversation_id response) (pio_conversations io)
                               (p_currentConversationId s) s2
               in (s3\<lparr>p_isLoading := False\<rparr>, chatReq # q)
           | Inl e \<Rightarrow>
               let errorMessage =
                     plain_message ''assistant''
                       ''I encountered an issue processing your request. Please try again.''
                       (pio_now_reply io)
               in (s1\<lparr>p_messages := p_messages s1 @ [errorMessage], p_isLoading := False\<rparr>,
                   [chatReq]))"

definition handleFileUpload_premium ::
  "string list \<Rightarrow> http_error + upload_response \<Rightarrow> string \<Rightarrow>
   http_error + conversation list option \<Rightarrow> premium_state \<Rightarrow> premium_state \<times> request list" where
  "handleFileUpload_premium files res now convs s =
     (if length files = 0 then (s, [])
      else
        let req = PostUpload files (Some (p_currentConversationId s))
        in case res of
             Inr response \<Rightarrow>
               let fileNames = (case u_file_names response of Some ns \<Rightarrow> ns | None \<Rightarrow> []);
                   fileObjects = map (\<lambda>name. \<lparr>pf_filename = name, pf_uploadTime = now\<rparr>) fileNames;
                   s1 = s\<lparr>p_uploadedFiles := p_uploadedFiles s @ fileObjects\<rparr>;
                   (s2, q) = adopt_premium (u_conversation_id response) convs
                               (p_currentConversationId s) s1
               in (s2, req # q)
           | Inl e \<Rightarrow> (s, [req]))"

section \<open>Requests and sample inputs\<close>

fun is_create_dashboard :: "request \<Rightarrow> bool" where
  "is_create_dashboard (PostCreateDashboard m c fs) = True"
| "is_create_dashboard q = False"

text \<open>Concrete responses and states, used where a property is evaluated on an input.\<close>

definition example_job_completed :: job where
  "example_job_completed =
     \<lparr>j_conversation_id = None, j_status = ''completed'', j_progress = Some 100,
      j_response = Some ''Done'', j_dashboard_url = Some ''http://x'', j_download_link = None,
      j_error = None\<rparr>"



definition example_tracking :: app_state where
  "example_tracking =
     initial_state\<lparr>currentConversationId := Some ''c1'',
                   activeJobs := insertJob ''j1'' (Some ''c1'') []\<rparr>"

definition example_conversation :: conversation where
  "example_conversation =
     \<lparr>c_id = ''c1'', c_title = ''Sales'', c_message_count = 2, c_updated_at = ''t0''\<rparr>"

definition example_staged :: app_state where
  "example_staged =
     initial_state\<lparr>conversations := [example_conversation],
                   currentConversationId := Some ''c1'',
                   inputMessage := ''Create a sales Dashboard '',
                   uploadedFiles := [new_file ''t0'' ''sales.csv'']\<rparr>"

definition example_in_flight :: app_state where
  "example_in_flight =
     initial_state\<lparr>currentConversationId := Some ''c1'', inputMessage := ''hello'',
                   isLoading := True\<rparr>"

definition example_reply :: chat_response where
  "example_reply =
     \<lparr>r_response = ''ok'', r_conversation_id = Some ''c2'', r_dashboard_url = None,
      r_download_link = None\<rparr>"

definition example_io :: send_io where
  "example_io =
     \<lparr>io_now_user = ''t1'', io_chat = Inr example_reply, io_now_reply = ''t2'',
      io_dashboard = Inr \<lparr>d_job_id = Some ''j1''\<rparr>, io_now_error = ''t3'',
      io_conversations = Inr None\<rparr>"



definition example_upload :: upload_response where
  "example_upload = \<lparr>u_file_names = Some [''Sales.Q1.CSV''], u_conversation_id = Some ''c2''\<rparr>"

definition example_premium :: premium_state where
  "example_premium =
     \<lparr>p_messages = [], p_inputMessage = ''hello'', p_isLoading = True,
      p_conversations = [example_conversation], p_currentConversationId = ''c1'',
      p_uploadedFiles = [], p_loadingConversation = False, p_currentTheme = ''default'',
      p_showThemeModal = False\<rparr>"

definition example_premium_io :: premium_io where
  "example_premium_io =
     \<lparr>pio_now_user = ''t1'', pio_chat = Inr example_reply, pio_now_reply = ''t2'',
      pio_conversations = Inr None\<rparr>"

section \<open>The poll timer follows the job map\<close>

lemma removeAll_all_same: "\<forall>x\<in>set xs. x = i \<Longrightarrow> removeAll i xs = []"
  by (induction xs) auto

lemma pollCleanup_clears:
  assumes "\<forall>i\<in>set (timers t). 0 < i \<and> pollInterval t = Some i"
  shows "timers (pollCleanup t) = []"
    and "pollInterval (pollCleanup t) = pollInterval t"
    and "next_timer (pollCleanup t) = next_timer t"
proof -
  show "timers (pollCleanup t) = []"
  proof (cases "pollInterval t")
    case None
    with assms have "timers t = []" by (cases "timers t") auto
    with None show ?thesis by (simp add: pollCleanup_def)
  next
    case (Some i)
    with assms have all: "\<forall>x\<in>set (timers t). x = i \<and> 0 < x" by auto
    show ?thesis
    proof (cases "i = 0")
      case True
      with all have "timers t = []" by (cases "timers t") auto
      with Some True show ?thesis by (simp add: pollCleanup_def)
    next
      case False
      from all have "removeAll i (timers t) = []" by (intro removeAll_all_same) auto
      with Some False show ?thesis by (simp add: pollCleanup_def clearInterval_def)
    qed
  qed
  show "pollInterval (pollCleanup t) = pollInterval t"
    by (simp add: pollCleanup_def clearInterval_def split: option.splits)
  show "next_timer (pollCleanup t) = next_timer t"
    by (simp add: pollCleanup_def clearInterval_def split: option.splits)
qed

lemma pollEffect_arms:
  assumes "timers t = []" and "0 < next_timer t"
  shows "0 < next_timer (pollEffect jobs t)"
    and "\<forall>i\<in>set (timers (pollEffect jobs t)). 0 < i \<and> pollInterval (pollEffect jobs t) = Some i"
    and "length (timers (pollEffect jobs t)) = (if jobs = [] then 0 else 1)"
  using assms
  by (auto simp: pollEffect_def setInterval_def clearInterval_def split: option.splits)

lemma rerun_effect_inv:
  assumes "0 < next_timer t"
    and "\<forall>i\<in>set (timers t). 0 < i \<and> pollInterval t = Some i"
  shows "0 < next_timer (rerun_effect jobs t)"
    and "\<forall>i\<in>set (timers (rerun_effect jobs t)). 0 < i \<and> pollInterval (rerun_effect jobs t) = Some i"
    and "length (timers (rerun_effect jobs t)) = (if jobs = [] then 0 else 1)"
  unfolding rerun_effect_def
  using pollEffect_arms [of "pollCleanup t" jobs] pollCleanup_clears [OF assms(2)] assms(1)
  by simp_all

lemma reachable_inv:
  "reachable jt \<Longrightarrow>
     0 < next_timer (snd jt) \<and>
     (\<forall>i\<in>set (timers (snd jt)). 0 < i \<and> pollInterval (snd jt) = Some i) \<and>
     length (timers (snd jt)) = (if fst jt = [] then 0 else 1)"
proof (induction rule: reachable.induct)
  case mount
  show ?case by (simp add: pollEffect_def initial_timers_def)
next
  case (render jobs t us)
  then show ?case using rerun_effect_inv [of t "fold apply_update us jobs"] by simp
qed

text \<open>
  Every write of a handler to \<open>activeJobs\<close> is one of the four updates, so the states the
  handlers produce are among the reachable ones.
\<close>

lemma startNewConversation_update:
  "activeJobs (startNewConversation s) = apply_update ClearJobs (activeJobs s)"
  by (simp add: startNewConversation_def)

lemma checkJobStatuses_body_updates:
  "\<exists>us. activeJobs (checkJobStatuses_body jobId res now s) = fold apply_update us (activeJobs s)"
proof (cases res)
  case (Inl e)
  then have "activeJobs (checkJobStatuses_body jobId res now s) = fold apply_update [] (activeJobs s)"
    by (simp add: checkJobStatuses_body_def)
  then show ?thesis by blast
next
  case (Inr st)
  have merged: "mergeJobStatus jobId st (activeJobs s) =
                  fold apply_update [MergeStatus jobId st] (activeJobs s)"
    by simp
  have retired: "retireJob jobId (mergeJobStatus jobId st (activeJobs s)) =
                   fold apply_update [MergeStatus jobId st, RetireJob jobId] (activeJobs s)"
    by simp
  have twice: "retireJob jobId (retireJob jobId (mergeJobStatus jobId st (activeJobs s))) =
                 fold apply_update [MergeStatus jobId st, RetireJob jobId, RetireJob jobId]
                   (activeJobs s)"
    by simp
  have "activeJobs (checkJobStatuses_body jobId res now s) = mergeJobStatus jobId st (activeJobs s) \<or>
        activeJobs (checkJobStatuses_body jobId res now s) =
          retireJob jobId (mergeJobStatus jobId st (activeJobs s)) \<or>
        activeJobs (checkJobStatuses_body jobId res now s) =
          retireJob jobId (retireJob jobId (mergeJobStatus jobId st (activeJobs s)))"
    using Inr by (simp add: checkJobStatuses_body_def Let_def appendMessage_def)
  with merged retired twice show ?thesis by metis
qed

lemma sendMessage_updates:
  "\<exists>us. activeJobs (fst (sendMessage io s)) = fold apply_update us (activeJobs s)"
proof -
  have "activeJobs (fst (sendMessage io s)) = activeJobs s \<or>
        (\<exists>job_id conv. activeJobs (fst (sendMessage io s)) = insertJob job_id conv (activeJobs s))"
    by (auto simp: sendMessage_def sendMessage_try_def Let_def appendMessage_def
          loadConversations_def split: sum.splits option.splits prod.splits)
  then show ?thesis
  proof
    assume "activeJobs (fst (sendMessage io s)) = activeJobs s"
    then have "activeJobs (fst (sendMessage io s)) = fold apply_update [] (activeJobs s)" by simp
    then show ?thesis by blast
  next
    assume "\<exists>job_id conv. activeJobs (fst (sendMessage io s)) = insertJob job_id conv (activeJobs s)"
    then obtain job_id conv
      where "activeJobs (fst (sendMessage io s)) = insertJob job_id conv (activeJobs s)" by blast
    then have "activeJobs (fst (sendMessage io s)) =
                 fold apply_update [InsertJob job_id conv] (activeJobs s)" by simp
    then show ?thesis by blast
  qed
qed

text \<open>
  Claim C1.  After the mount and after every render that commits writes to the job map
  (job insertion, status merge, retirement, the clearing by \<open>startNewConversation\<close>),
  the window holds at most one poll timer, it holds one exactly when the job map is
  non-empty, and that timer is the one the \<open>pollInterval\<close> ref names.
\<close>

theorem poll_timer_iff_jobs:
  "reachable (jobs, t) \<Longrightarrow>
     length (timers t) \<le> 1 \<and> (timers t \<noteq> [] \<longleftrightarrow> jobs \<noteq> []) \<and>
     (\<forall>i\<in>set (timers t). pollInterval t = Some i)"
  using reachable_inv [of "(jobs, t)"] by (auto split: if_splits)

text \<open>
  A job is inserted after the mount, then retired: one timer while it is tracked, none
  afterwards.
\<close>

theorem poll_timer_iff_jobs_witness:
  "reachable (insertJob ''j1'' (Some ''c1'') [],
              rerun_effect (insertJob ''j1'' (Some ''c1'') []) initial_timers) \<and>
   length (timers (rerun_effect (insertJob ''j1'' (Some ''c1'') []) initial_timers)) = 1 \<and>
   reachable ([], rerun_effect []
                    (rerun_effect (insertJob ''j1'' (Some ''c1'') []) initial_timers)) \<and>
   timers (rerun_effect [] (rerun_effect (insertJob ''j1'' (Some ''c1'') []) initial_timers)) = []"
proof -
  have "reachable (fold apply_update [InsertJob ''j1'' (Some ''c1'')] [],
                   rerun_effect (fold apply_update [InsertJob ''j1'' (Some ''c1'')] [])
                     (pollEffect [] initial_timers))"
    by (rule reachable.render [OF reachable.mount])
  then have r1: "reachable (insertJob ''j1'' (Some ''c1'') [],
                            rerun_effect (insertJob ''j1'' (Some ''c1'') []) initial_timers)"
    by (simp add: pollEffect_def initial_timers_def)
  have "reachable (fold apply_update [RetireJob ''j1''] (insertJob ''j1'' (Some ''c1'') []),
                   rerun_effect (fold apply_update [RetireJob ''j1'']
                                   (insertJob ''j1'' (Some ''c1'') []))
                     (rerun_effect (insertJob ''j1'' (Some ''c1'') []) initial_timers))"
    by (rule reachable.render [OF r1])
  then have r2: "reachable ([], rerun_effect []
                    (rerun_effect (insertJob ''j1'' (Some ''c1'') []) initial_timers))"
    by (simp add: insertJob_def retireJob_def)
  have ne: "insertJob ''j1'' (Some ''c1'') [] \<noteq> []" by (simp add: insertJob_def)
  from poll_timer_iff_jobs [OF r1] ne
  have "length (timers (rerun_effect (insertJob ''j1'' (Some ''c1'') []) initial_timers)) = 1"
    by (cases "timers (rerun_effect (insertJob ''j1'' (Some ''c1'') []) initial_timers)") auto
  moreover from poll_timer_iff_jobs [OF r2]
  have "timers (rerun_effect [] (rerun_effect (insertJob ''j1'' (Some ''c1'') []) initial_timers)) = []"
    by simp
  ultimately show ?thesis using r1 r2 by simp
qed

section \<open>Terminal job statuses\<close>




section \<open>One terminal message per response text\<close>

lemma checkJobStatuses_body_count:
  "length (filter (\<lambda>m. m_completed m \<and> m_content m = X)
             (messages (checkJobStatuses_body jobId res now s)))
     \<le> max 1 (length (filter (\<lambda>m. m_completed m \<and> m_content m = X) (messages s)))"
  by (auto simp: checkJobStatuses_body_def Let_def appendMessage_def hasCompletionMessage_def
        result_message_def job_error_message_def error_message_def list_ex_iff filter_empty_conv
        split: sum.splits)

text \<open>A tick without interleaving is one such run, over the keys of the job map in order.\<close>

lemma fold_body_poll_run:
  "fold (\<lambda>jobId t. checkJobStatuses_body jobId (fetch jobId) (now jobId) t) ks s =
     poll_run (map (\<lambda>jobId. (jobId, fetch jobId, now jobId)) ks) s"
  by (induction ks arbitrary: s) simp_all

lemma checkJobStatuses_poll_run:
  "fst (checkJobStatuses fetch now s) =
     poll_run (map (\<lambda>jobId. (jobId, fetch jobId, now jobId)) (map fst (activeJobs s))) s"
  by (simp add: checkJobStatuses_def fold_body_poll_run)

text \<open>
  Claim C3.  Whatever poll responses arrive, in whatever order and number, they never add
  a second message with the completed flag and content \<open>X\<close>: the number of such messages
  in the log stays what it was, or goes from none to one.
\<close>

theorem completed_message_once:
  "length (filter (\<lambda>m. m_completed m \<and> m_content m = X) (messages (poll_run evs s)))
     \<le> max 1 (length (filter (\<lambda>m. m_completed m \<and> m_content m = X) (messages s)))"
proof (induction evs arbitrary: s)
  case Nil
  show ?case by simp
next
  case (Cons ev evs)
  obtain jobId res now where ev: "ev = (jobId, res, now)" by (cases ev) auto
  have "length (filter (\<lambda>m. m_completed m \<and> m_content m = X) (messages (poll_run (ev # evs) s)))
          \<le> max 1 (length (filter (\<lambda>m. m_completed m \<and> m_content m = X)
                       (messages (checkJobStatuses_body jobId res now s))))"
    using Cons.IH [of "checkJobStatuses_body jobId res now s"] by (simp add: ev)
  also have "\<dots> \<le> max 1 (length (filter (\<lambda>m. m_completed m \<and> m_content m = X) (messages s)))"
    using checkJobStatuses_body_count [of X jobId res now s] by simp
  finally show ?case .
qed

text \<open>
  The same completed status observed by three overlapping ticks: the log holds the
  terminal message once.
\<close>

theorem completed_message_once_witness:
  "length (filter (\<lambda>m. m_completed m \<and> m_content m = ''Done'')
             (messages (poll_run [(''j1'', Inr example_job_completed, ''t1''),
                                  (''j1'', Inr example_job_completed, ''t2''),
                                  (''j1'', Inr example_job_completed, ''t3'')] example_tracking))) \<le> 1 \<and>
   messages (poll_run [(''j1'', Inr example_job_completed, ''t1''),
                       (''j1'', Inr example_job_completed, ''t2''),
                       (''j1'', Inr example_job_completed, ''t3'')] example_tracking) =
     [result_message example_job_completed ''t1'']"
proof -
  have m: "messages example_tracking = []"
    by (simp add: example_tracking_def initial_state_def)
  have "messages (poll_run [(''j1'', Inr example_job_completed, ''t1''),
                            (''j1'', Inr example_job_completed, ''t2''),
                            (''j1'', Inr example_job_completed, ''t3'')] example_tracking) =
          [result_message example_job_completed ''t1'']"
    by (simp add: checkJobStatuses_body_def Let_def appendMessage_def hasCompletionMessage_def
          result_message_def example_job_completed_def m)
  with completed_message_once [of "''Done''" "[(''j1'', Inr example_job_completed, ''t1''),
         (''j1'', Inr example_job_completed, ''t2''),
         (''j1'', Inr example_job_completed, ''t3'')]" example_tracking] m
  show ?thesis by simp
qed

section \<open>The guard of sendMessage\<close>




section \<open>A failing refresh of the conversation list\<close>

text \<open>
  Claim C5.  When the GET of the conversation list fails, the second front end leaves its
  list, and all of its state, as it was; frontend/src/App.js replaces the list by the
  empty list and leaves the rest of its state as it was.
\<close>

theorem loadConversations_failure:
  "fst (loadConversations_premium (Inl e) p) = p \<and>
   fst (loadConversations (Inl e) s) = s\<lparr>conversations := []\<rparr>"
proof
  show "fst (loadConversations_premium (Inl e) p) = p"
    unfolding loadConversations_premium_def by simp
next
  show "fst (loadConversations (Inl e) s) = s\<lparr>conversations := []\<rparr>"
    unfolding loadConversations_def by simp
qed

theorem loadConversations_failure_witness:
  "p_conversations (fst (loadConversations_premium (Inl (HttpError None None)) example_premium)) =
     [example_conversation] \<and>
   conversations (fst (loadConversations (Inl (HttpError None None)) example_staged)) = []"
  using loadConversations_failure [of "HttpError None None" example_premium example_staged]
  by (simp add: example_premium_def)

text \<open>In frontend/src/App.js a failed refresh empties a list that held a conversation.\<close>

theorem loadConversations_failure_counterexample:
  "conversations example_staged = [example_conversation] \<and>
   conversations (fst (loadConversations (Inl (HttpError None None)) example_staged)) = []"
  by (simp add: loadConversations_def example_staged_def initial_state_def)

section \<open>The conversation id after a successful send or upload\<close>

text \<open>
  Claim C6.  In frontend/src/App.js a successful chat response, and a successful upload
  response, set the active conversation id to the id the server returned, whether or not
  an id was active; the field is unchanged exactly when the server returns the active id.
  In the second front end a send or an upload leaves an active conversation id
  unchanged, and adopts a non-empty id from the server when none was active.
\<close>

theorem conversation_id_after_success:
  "(\<not> (trim (inputMessage s) = [] \<and> uploadedFiles s = []) \<and> io_chat io = Inr r \<longrightarrow>
      currentConversationId (fst (sendMessage io s)) = r_conversation_id r) \<and>
   (u_file_names u = Some names \<longrightarrow>
      currentConversationId (fst (handleFileUpload files (Inr u) now s)) = u_conversation_id u) \<and>
   (p_currentConversationId p \<noteq> [] \<longrightarrow>
      p_currentConversationId (fst (sendMessage_premium pio p)) = p_currentConversationId p \<and>
      p_currentConversationId (fst (handleFileUpload_premium files res now convs p)) =
        p_currentConversationId p) \<and>
   (p_currentConversationId p = [] \<and> trim (p_inputMessage p) \<noteq> [] \<and> \<not> p_isLoading p \<and>
    pio_chat pio = Inr r \<and> truthy (r_conversation_id r) \<longrightarrow>
      p_currentConversationId (fst (sendMessage_premium pio p)) = string_of (r_conversation_id r)) \<and>
   (p_currentConversationId p = [] \<and> files \<noteq> [] \<and> truthy (u_conversation_id u) \<longrightarrow>
      p_currentConversationId (fst (handleFileUpload_premium files (Inr u) now convs p)) =
        string_of (u_conversation_id u))"
  by (auto simp: sendMessage_def sendMessage_try_def sendMessage_premium_def Let_def appendMessage_def
        handleFileUpload_def handleFileUpload_premium_def adopt_premium_def loadConversations_def
        loadConversations_premium_def
        split: sum.splits option.splits prod.splits)

theorem conversation_id_after_success_witness:
  "currentConversationId (fst (sendMessage example_io example_staged)) = Some ''c2'' \<and>
   currentConversationId (fst (handleFileUpload [''Sales.Q1.CSV''] (Inr example_upload) ''t''
                                 example_staged)) = Some ''c2'' \<and>
   p_currentConversationId
     (fst (sendMessage_premium example_premium_io (example_premium\<lparr>p_isLoading := False\<rparr>))) = ''c1'' \<and>
   p_currentConversationId
     (fst (sendMessage_premium example_premium_io
             (example_premium\<lparr>p_isLoading := False, p_currentConversationId := []\<rparr>))) = ''c2'' \<and>
   p_currentConversationId
     (fst (handleFileUpload_premium [''Sales.Q1.CSV''] (Inr example_upload) ''t'' (Inr None)
             (example_premium\<lparr>p_currentConversationId := []\<rparr>))) = ''c2''"
proof -
  have staged: "\<not> (trim (inputMessage example_staged) = [] \<and> uploadedFiles example_staged = []) \<and>
                io_chat example_io = Inr example_reply \<and>
                r_conversation_id example_reply = Some ''c2''"
    by (simp add: example_staged_def initial_state_def example_io_def example_reply_def)
  have up: "u_file_names example_upload = Some [''Sales.Q1.CSV''] \<and>
            u_conversation_id example_upload = Some ''c2''"
    by (simp add: example_upload_def)
  have active: "p_currentConversationId (example_premium\<lparr>p_isLoading := False\<rparr>) = ''c1''"
    by (simp add: example_premium_def)
  have fresh: "p_currentConversationId
                 (example_premium\<lparr>p_isLoading := False, p_currentConversationId := []\<rparr>) = [] \<and>
               trim (p_inputMessage
                 (example_premium\<lparr>p_isLoading := False, p_currentConversationId := []\<rparr>)) \<noteq> [] \<and>
               \<not> p_isLoading (example_premium\<lparr>p_isLoading := False, p_currentConversationId := []\<rparr>) \<and>
               pio_chat example_premium_io = Inr example_reply \<and>
               truthy (r_conversation_id example_reply)"
    by (simp add: example_premium_def example_premium_io_def example_reply_def trim_def
          isWhiteSpace_def)
  have fresh_up: "p_currentConversationId (example_premium\<lparr>p_currentConversationId := []\<rparr>) = [] \<and>
                  truthy (u_conversation_id example_upload)"
    by (simp add: example_upload_def)
  from conversation_id_after_success [where s = example_staged and io = example_io
                                         and r = example_reply] staged
  have 1: "currentConversationId (fst (sendMessage example_io example_staged)) = Some ''c2''"
    by simp
  from conversation_id_after_success
         [where u = example_upload and names = "[''Sales.Q1.CSV'']" and files = "[''Sales.Q1.CSV'']"
            and now = "''t''" and s = example_staged] up
  have 2: "currentConversationId (fst (handleFileUpload [''Sales.Q1.CSV''] (Inr example_upload) ''t''
                                         example_staged)) = Some ''c2''"
    by simp
  from conversation_id_after_success
         [where p = "example_premium\<lparr>p_isLoading := False\<rparr>" and pio = example_premium_io] active
  have 3: "p_currentConversationId
             (fst (sendMessage_premium example_premium_io (example_premium\<lparr>p_isLoading := False\<rparr>))) =
           ''c1''"
    by simp
  from conversation_id_after_success
         [where p = "example_premium\<lparr>p_isLoading := False, p_currentConversationId := []\<rparr>"
            and pio = example_premium_io and r = example_reply] fresh staged
  have 4: "p_currentConversationId
             (fst (sendMessage_premium example_premium_io
                     (example_premium\<lparr>p_isLoading := False, p_currentConversationId := []\<rparr>))) = ''c2''"
    by simp
  from conversation_id_after_success
         [where p = "example_premium\<lparr>p_currentConversationId := []\<rparr>" and u = example_upload
            and files = "[''Sales.Q1.CSV'']" and now = "''t''" and convs = "Inr None"] fresh_up up
  have 5: "p_currentConversationId
             (fst (handleFileUpload_premium [''Sales.Q1.CSV''] (Inr example_upload) ''t'' (Inr None)
                     (example_premium\<lparr>p_currentConversationId := []\<rparr>))) = ''c2''"
    by simp
  from 1 2 3 4 5 show ?thesis by blast
qed

text \<open>
  In frontend/src/App.js a send and an upload in conversation \<open>c1\<close> whose responses name
  \<open>c2\<close> both replace the active id.
\<close>

theorem conversation_id_after_success_counterexample:
  "currentConversationId example_staged = Some ''c1'' \<and>
   currentConversationId (fst (sendMessage example_io example_staged)) = Some ''c2'' \<and>
   currentConversationId (fst (handleFileUpload [''Sales.Q1.CSV''] (Inr example_upload) ''t''
                                 example_staged)) = Some ''c2''"
  by (simp add: sendMessage_def sendMessage_try_def Let_def appendMessage_def example_staged_def
        example_io_def example_reply_def example_upload_def initial_state_def
        handleFileUpload_def loadConversations_def insertJob_def split: prod.splits)

section \<open>The dashboard request of sendMessage\<close>

text \<open>
  Claim C7.  \<open>sendMessage\<close> issues a create-dashboard request if and only if the chat POST
  succeeded, the staged file list is non-empty and the lower-cased message text contains
  \<open>dashboard\<close>, \<open>chart\<close> or \<open>visualization\<close>; the request carries the message text, the
  conversation id of the chat response and the paths of the staged files.  When its
  response carries a non-empty job id, the job map gains under that id an entry with
  status \<open>processing\<close> and progress 0 (the entry records the conversation id as well).
\<close>

theorem dashboard_request_iff:
  "(list_ex is_create_dashboard (snd (sendMessage io s)) \<longleftrightarrow>
      (\<exists>r. io_chat io = Inr r) \<and> uploadedFiles s \<noteq> [] \<and>
      (includes_str (toLowerCase (trim (inputMessage s))) ''dashboard'' \<or>
       includes_str (toLowerCase (trim (inputMessage s))) ''chart'' \<or>
       includes_str (toLowerCase (trim (inputMessage s))) ''visualization'')) \<and>
   (io_chat io = Inr r \<and> uploadedFiles s \<noteq> [] \<and> dashboard_intent (trim (inputMessage s)) \<longrightarrow>
      filter is_create_dashboard (snd (sendMessage io s)) =
        [PostCreateDashboard (trim (inputMessage s)) (r_conversation_id r)
           (map f_path (uploadedFiles s))]) \<and>
   (io_chat io = Inr r \<and> uploadedFiles s \<noteq> [] \<and> dashboard_intent (trim (inputMessage s)) \<and>
    io_dashboard io = Inr d \<and> d_job_id d = Some job_id \<and> job_id \<noteq> [] \<longrightarrow>
      activeJobs (fst (sendMessage io s)) = insertJob job_id (r_conversation_id r) (activeJobs s) \<and>
      map_of (activeJobs (fst (sendMessage io s))) job_id =
        Some \<lparr>j_conversation_id = r_conversation_id r, j_status = ''processing'',
              j_progress = Some 0, j_response = None, j_dashboard_url = None,
              j_download_link = None, j_error = None\<rparr>)"
  by (auto simp: sendMessage_def sendMessage_try_def Let_def appendMessage_def dashboard_intent_def
        loadConversations_def insertJob_def update_conv'
        split: sum.splits option.splits prod.splits)

text \<open>
  A request for a dashboard with one staged file, answered with job \<open>j1\<close>; and a greeting
  with no staged file, which issues no such request.
\<close>

theorem dashboard_request_iff_witness:
  "filter is_create_dashboard (snd (sendMessage example_io example_staged)) =
     [PostCreateDashboard ''Create a sales Dashboard'' (Some ''c2'') [''sales.csv'']] \<and>
   map_of (activeJobs (fst (sendMessage example_io example_staged))) ''j1'' =
     Some \<lparr>j_conversation_id = Some ''c2'', j_status = ''processing'', j_progress = Some 0,
           j_response = None, j_dashboard_url = None, j_download_link = None, j_error = None\<rparr> \<and>
   \<not> list_ex is_create_dashboard (snd (sendMessage example_io example_in_flight))"
proof -
  have trimmed: "trim (inputMessage example_staged) = ''Create a sales Dashboard''"
    by (simp add: example_staged_def initial_state_def trim_def isWhiteSpace_def)
  have intent: "dashboard_intent ''Create a sales Dashboard''"
    by code_simp
  have staged: "io_chat example_io = Inr example_reply \<and> uploadedFiles example_staged \<noteq> [] \<and>
                io_dashboard example_io = Inr \<lparr>d_job_id = Some ''j1''\<rparr> \<and>
                r_conversation_id example_reply = Some ''c2'' \<and>
                map f_path (uploadedFiles example_staged) = [''sales.csv'']"
    by (simp add: example_io_def example_staged_def initial_state_def example_reply_def new_file_def)
  have none: "uploadedFiles example_in_flight = []"
    by (simp add: example_in_flight_def initial_state_def)
  note T = dashboard_request_iff [where io = example_io and s = example_staged and r = example_reply
             and d = "\<lparr>d_job_id = Some ''j1''\<rparr>" and job_id = "''j1''"]
  from T trimmed intent staged
  have 1: "filter is_create_dashboard (snd (sendMessage example_io example_staged)) =
             [PostCreateDashboard ''Create a sales Dashboard'' (Some ''c2'') [''sales.csv'']]"
    by simp
  from T trimmed intent staged
  have 2: "map_of (activeJobs (fst (sendMessage example_io example_staged))) ''j1'' =
             Some \<lparr>j_conversation_id = Some ''c2'', j_status = ''processing'', j_progress = Some 0,
                   j_response = None, j_dashboard_url = None, j_download_link = None,
                   j_error = None\<rparr>"
    by (simp add: insertJob_def update_conv')
  from dashboard_request_iff [where io = example_io and s = example_in_flight] none
  have 3: "\<not> list_ex is_create_dashboard (snd (sendMessage example_io example_in_flight))"
    by blast
  from 1 2 3 show ?thesis by blast
qed

section \<open>Loading a conversation is single-flight\<close>

text \<open>
  Claim C8.  In every state whose loading flag is set, an invocation of
  \<open>loadConversation\<close> issues no request and leaves the state as it was.  So when a load
  has started and a second invocation comes before its responses, the second does
  nothing, and the state after the responses is the state of the one load.
\<close>

theorem loadConversation_single_flight:
  "(loadingConversation s \<longrightarrow>
      loadConversation_start id2 s = (s, []) \<and> loadConversation id2 r2 f2 s = (s, [])) \<and>
   (\<not> loadingConversation s \<longrightarrow>
      loadingConversation (fst (loadConversation_start id1 s)) \<and>
      loadConversation id2 r2 f2 (fst (loadConversation_start id1 s)) =
        (fst (loadConversation_start id1 s), []) \<and>
      fst (loadConversation_messages id1 r1 f1
             (fst (loadConversation id2 r2 f2 (fst (loadConversation_start id1 s))))) =
        fst (loadConversation id1 r1 f1 s))"
proof (cases "loadingConversation s")
  case True
  then show ?thesis
    by (simp add: loadConversation_start_def loadConversation_def)
next
  case False
  then have started: "loadConversation_start id1 s =
                        (s\<lparr>loadingConversation := True\<rparr>, [GetConversation id1])"
    by (simp add: loadConversation_start_def)
  have pending: "loadingConversation (s\<lparr>loadingConversation := True\<rparr>)"
    by simp
  then have second: "loadConversation id2 r2 f2 (s\<lparr>loadingConversation := True\<rparr>) =
                       (s\<lparr>loadingConversation := True\<rparr>, [])"
    by (simp add: loadConversation_def)
  have one: "fst (loadConversation id1 r1 f1 s) =
               fst (loadConversation_messages id1 r1 f1 (s\<lparr>loadingConversation := True\<rparr>))"
    using False by (simp add: loadConversation_def started split: prod.splits)
  from False started pending second one show ?thesis by simp
qed

text \<open>
  Conversation \<open>c1\<close> is being loaded when \<open>c2\<close> is clicked: the messages shown in the end
  are those of \<open>c1\<close>.
\<close>

theorem loadConversation_single_flight_witness:
  "loadConversation ''c2'' (Inr (Some [])) (Inr None) (initial_state\<lparr>loadingConversation := True\<rparr>) =
     (initial_state\<lparr>loadingConversation := True\<rparr>, []) \<and>
   fst (loadConversation_messages ''c1'' (Inr (Some [user_message ''hi'' ''t''])) (Inr None)
          (fst (loadConversation ''c2'' (Inr (Some [])) (Inr None)
                  (fst (loadConversation_start ''c1'' initial_state))))) =
     initial_state\<lparr>messages := [user_message ''hi'' ''t''], currentConversationId := Some ''c1''\<rparr>"
proof -
  have busy: "loadingConversation (initial_state\<lparr>loadingConversation := True\<rparr>)"
    by simp
  have idle: "\<not> loadingConversation initial_state"
    by (simp add: initial_state_def)
  have one: "fst (loadConversation ''c1'' (Inr (Some [user_message ''hi'' ''t''])) (Inr None)
                    initial_state) =
             initial_state\<lparr>messages := [user_message ''hi'' ''t''],
                           currentConversationId := Some ''c1''\<rparr>"
    by (simp add: loadConversation_def loadConversation_start_def loadConversation_messages_def
          loadConversation_files_def initial_state_def)
  from loadConversation_single_flight
         [where s = "initial_state\<lparr>loadingConversation := True\<rparr>" and ?id2.0 = "''c2''"
            and ?r2.0 = "Inr (Some [])" and ?f2.0 = "Inr None"] busy
  have 1: "loadConversation ''c2'' (Inr (Some [])) (Inr None)
             (initial_state\<lparr>loadingConversation := True\<rparr>) =
           (initial_state\<lparr>loadingConversation := True\<rparr>, [])"
    by blast
  from loadConversation_single_flight
         [where s = initial_state and ?id1.0 = "''c1''" and ?id2.0 = "''c2''"
            and ?r1.0 = "Inr (Some [user_message ''hi'' ''t''])" and ?f1.0 = "Inr None"
            and ?r2.0 = "Inr (Some [])" and ?f2.0 = "Inr None"] idle one
  have 2: "fst (loadConversation_messages ''c1'' (Inr (Some [user_message ''hi'' ''t''])) (Inr None)
                  (fst (loadConversation ''c2'' (Inr (Some [])) (Inr None)
                          (fst (loadConversation_start ''c1'' initial_state))))) =
           initial_state\<lparr>messages := [user_message ''hi'' ''t''],
                         currentConversationId := Some ''c1''\<rparr>"
    by metis
  from 1 2 show ?thesis by blast
qed

section \<open>Staged files outlive a send\<close>

lemma sendMessage_uploadedFiles: "uploadedFiles (fst (sendMessage io s)) = uploadedFiles s"
  by (auto simp: sendMessage_def sendMessage_try_def Let_def appendMessage_def
        loadConversations_def split: sum.splits option.splits prod.splits)

lemma sendMessage_file_paths:
  "PostCreateDashboard m c fs \<in> set (snd (sendMessage io s)) \<Longrightarrow> fs = map f_path (uploadedFiles s)"
  by (auto simp: sendMessage_def sendMessage_try_def Let_def appendMessage_def
        loadConversations_def split: sum.splits option.splits prod.splits if_splits)

lemma sendMessage_issues_dashboard:
  "io_chat io = Inr r \<Longrightarrow> uploadedFiles s \<noteq> [] \<Longrightarrow> dashboard_intent (trim (inputMessage s)) \<Longrightarrow>
     PostCreateDashboard (trim (inputMessage s)) (r_conversation_id r) (map f_path (uploadedFiles s))
       \<in> set (snd (sendMessage io s))"
  by (auto simp: sendMessage_def sendMessage_try_def Let_def appendMessage_def
        split: sum.splits option.splits prod.splits)

text \<open>
  Claim C9.  \<open>sendMessage\<close> leaves the staged file list as it was, whatever the outcome of
  its requests; a create-dashboard request it issues carries the paths of all staged
  files, and so does the create-dashboard request of any later send with a new text.
\<close>

theorem sendMessage_keeps_staged_files:
  "uploadedFiles (fst (sendMessage io s)) = uploadedFiles s \<and>
   (\<forall>m c fs. PostCreateDashboard m c fs \<in> set (snd (sendMessage io s)) \<longrightarrow>
      fs = map f_path (uploadedFiles s)) \<and>
   (\<forall>m c fs. PostCreateDashboard m c fs
                \<in> set (snd (sendMessage io2 ((fst (sendMessage io s))\<lparr>inputMessage := newText\<rparr>))) \<longrightarrow>
      fs = map f_path (uploadedFiles s))"
proof (intro conjI allI impI)
  show "uploadedFiles (fst (sendMessage io s)) = uploadedFiles s"
    by (rule sendMessage_uploadedFiles)
next
  fix m c fs
  assume "PostCreateDashboard m c fs \<in> set (snd (sendMessage io s))"
  then show "fs = map f_path (uploadedFiles s)" by (rule sendMessage_file_paths)
next
  fix m c fs
  assume "PostCreateDashboard m c fs
            \<in> set (snd (sendMessage io2 ((fst (sendMessage io s))\<lparr>inputMessage := newText\<rparr>)))"
  then have "fs = map f_path (uploadedFiles ((fst (sendMessage io s))\<lparr>inputMessage := newText\<rparr>))"
    by (rule sendMessage_file_paths)
  then show "fs = map f_path (uploadedFiles s)" by (simp add: sendMessage_uploadedFiles)
qed

text \<open>Two dashboard requests in a row submit the same staged file.\<close>

theorem sendMessage_keeps_staged_files_witness:
  "uploadedFiles (fst (sendMessage example_io example_staged)) = [new_file ''t0'' ''sales.csv''] \<and>
   PostCreateDashboard ''now a chart'' (Some ''c2'') [''sales.csv'']
     \<in> set (snd (sendMessage example_io
                   ((fst (sendMessage example_io example_staged))\<lparr>inputMessage := ''now a chart''\<rparr>))) \<and>
   [''sales.csv''] = map f_path (uploadedFiles example_staged)"
proof -
  have files: "uploadedFiles example_staged = [new_file ''t0'' ''sales.csv'']"
    by (simp add: example_staged_def initial_state_def)
  have intent: "dashboard_intent ''now a chart''"
    by code_simp
  have trimmed: "trim ''now a chart'' = ''now a chart''"
    by (simp add: trim_def isWhiteSpace_def)
  note T = sendMessage_keeps_staged_files
             [where io = example_io and s = example_staged and ?io2.0 = example_io
                and newText = "''now a chart''"]
  from T files have kept: "uploadedFiles (fst (sendMessage example_io example_staged)) =
                             [new_file ''t0'' ''sales.csv'']"
    by simp
  have again: "PostCreateDashboard ''now a chart'' (Some ''c2'') [''sales.csv'']
                 \<in> set (snd (sendMessage example_io
                      ((fst (sendMessage example_io example_staged))\<lparr>inputMessage := ''now a chart''\<rparr>)))"
    using sendMessage_issues_dashboard
            [where io = example_io and r = example_reply
               and s = "(fst (sendMessage example_io example_staged))\<lparr>inputMessage := ''now a chart''\<rparr>"]
          kept intent trimmed
    by (simp add: example_io_def example_reply_def new_file_def)
  with T have "[''sales.csv''] = map f_path (uploadedFiles example_staged)"
    by blast
  with kept again show ?thesis by blast
qed

section \<open>A failed send keeps the optimistic message\<close>



end
